theory Spec2Isabelle
  imports Main
begin

section \<open>Kernel classification tables of \<open>pandas/core/groupby/base.py\<close>\<close>

text \<open>
  The module builds each table as a \<open>frozenset\<close> of a list literal of operation names;
  \<open>|\<close> on frozensets is set union. A table is therefore the \<open>set\<close> of its literal,
  with the names in the order the source lists them.
\<close>

definition plotting_methods :: "string set" where
  "plotting_methods = set [''plot'', ''hist'']"

definition common_apply_allowlist :: "string set" where
  "common_apply_allowlist =
     set [''quantile'', ''fillna'', ''mad'', ''take'', ''idxmax'', ''idxmin'', ''tshift'',
          ''skew'', ''corr'', ''cov'', ''diff'']
     \<union> plotting_methods"

definition series_apply_allowlist :: "string set" where
  "series_apply_allowlist =
     (common_apply_allowlist
      \<union> {''nlargest'', ''nsmallest'', ''is_monotonic_increasing'', ''is_monotonic_decreasing''})
     \<union> set [''dtype'', ''unique'']"

definition dataframe_apply_allowlist :: "string set" where
  "dataframe_apply_allowlist = common_apply_allowlist \<union> set [''dtypes'', ''corrwith'']"

definition cythonized_kernels :: "string set" where
  "cythonized_kernels = set [''cumprod'', ''cumsum'', ''shift'', ''cummin'', ''cummax'']"

definition cython_cast_blocklist :: "string set" where
  "cython_cast_blocklist = set [''rank'', ''count'', ''size'', ''idxmin'', ''idxmax'']"

definition reduction_kernels :: "string set" where
  "reduction_kernels =
     set [''all'', ''any'', ''corrwith'', ''count'', ''first'', ''idxmax'', ''idxmin'',
          ''last'', ''mad'', ''max'', ''mean'', ''median'', ''min'', ''ngroup'', ''nth'',
          ''nunique'', ''prod'', ''quantile'', ''sem'', ''size'', ''skew'', ''std'', ''sum'',
          ''var'']"

definition transformation_kernels :: "string set" where
  "transformation_kernels =
     set [''backfill'', ''bfill'', ''cumcount'', ''cummax'', ''cummin'', ''cumprod'',
          ''cumsum'', ''diff'', ''ffill'', ''fillna'', ''pad'', ''pct_change'', ''rank'',
          ''shift'', ''tshift'']"

definition groupby_other_methods :: "string set" where
  "groupby_other_methods =
     set [''agg'', ''aggregate'', ''apply'', ''boxplot'', ''corr'', ''cov'', ''describe'',
          ''dtypes'', ''expanding'', ''ewm'', ''filter'', ''get_group'', ''groups'', ''head'',
          ''hist'', ''indices'', ''ndim'', ''ngroups'', ''ohlc'', ''pipe'', ''plot'',
          ''resample'', ''rolling'', ''tail'', ''take'', ''transform'', ''sample'']"

definition transform_kernel_allowlist :: "string set" where
  "transform_kernel_allowlist = reduction_kernels \<union> transformation_kernels"


section \<open>Grouped-view delegation: \<open>ShallowMixin\<close> and \<open>GotItemMixin\<close>\<close>

text \<open>
  Python exceptions are values: a method returns \<open>Inl\<close> of the exception it raises and
  \<open>Inr\<close> of its result. \<open>IndexError\<close> stands for the class and its subclasses, which is
  what \<open>except IndexError\<close> catches.
\<close>

datatype error = IndexError | KeyError | AttributeError string | TypeError string
  | OtherError string

text \<open>
  The object handed to \<open>_shallow_copy\<close> is either a plain data object or an instance
  of some view class, which carries its own \<open>obj\<close> attribute. The classes themselves
  are declared outside this module; a class is its name, and the subclass relation
  that \<open>isinstance\<close> consults is a parameter. Data containers are not view classes.
\<close>

datatype 'd pyobj = Data 'd | Instance string "'d pyobj"

fun isinstance :: "(string \<Rightarrow> string \<Rightarrow> bool) \<Rightarrow> 'd pyobj \<Rightarrow> string \<Rightarrow> bool" where
  "isinstance subclass (Data d) c = False"
| "isinstance subclass (Instance c' ob) c = subclass c' c"

fun getattr_obj :: "'d pyobj \<Rightarrow> error + 'd pyobj" where
  "getattr_obj (Instance c' ob) = Inr ob"
| "getattr_obj (Data d) = Inl (AttributeError ''obj'')"

text \<open>
  A key is a scalar, a list-like of identifiers, or some other object (a slice, say).
\<close>

datatype 'k key = Scalar 'k | ListLike "'k list" | OtherKey

text \<open>
  Modelled from the spec: \<open>is_scalar\<close> and \<open>is_list_like\<close> are imported from
  \<open>pandas.core.dtypes.common\<close>, which is not part of this module; the spec speaks of
  "a single scalar" and "a sequence of identifiers", and no object is both.
\<close>

fun is_scalar :: "'k key \<Rightarrow> bool" where
  "is_scalar (Scalar k) = True"
| "is_scalar _ = False"

fun is_list_like :: "'k key \<Rightarrow> bool" where
  "is_list_like (ListLike ks) = True"
| "is_list_like _ = False"

text \<open>
  Modelled from the spec: the tabular container is an external collaborator that
  answers a dimensionality query and exposes its column/field identifiers, against
  which \<open>key in subset\<close> is decided. The test is reached for scalar keys only:
  \<open>and\<close> and \<open>or\<close> short-circuit.
\<close>

record 'k container =
  ndim :: int
  info_axis :: "'k list"

fun contains :: "'k key \<Rightarrow> 'k container \<Rightarrow> bool" where
  "contains (Scalar k) data = (k \<in> set (info_axis data))"
| "contains _ data = False"

text \<open>
  What the two mixins read from \<open>self\<close>: its type, \<open>_constructor\<close>, the class
  attribute \<open>_attributes\<close>, the instance attributes reachable through \<open>getattr\<close>,
  \<open>obj\<close> and \<open>_groupby\<close>.
\<close>

record ('k, 'g, 'v) view =
  view_type :: string
  constructor :: string
  attributes :: "string list"
  getattr :: "string \<rightharpoonup> 'v"
  obj :: "'k container"
  groupby :: 'g

subsection \<open>\<open>ShallowMixin._shallow_copy\<close>\<close>

text \<open>The call \<open>self._constructor(obj, **kwargs)\<close>: the class and the arguments it receives.\<close>

record ('d, 'v) constructed =
  con_class :: string
  con_obj :: "'d pyobj"
  con_kwargs :: "string \<rightharpoonup> 'v"

text \<open>The loop over \<open>self._attributes\<close>: an attribute absent from \<open>kwargs\<close> is read from \<open>self\<close>.\<close>

fun fill_kwargs ::
  "(string \<rightharpoonup> 'v) \<Rightarrow> string list \<Rightarrow> (string \<rightharpoonup> 'v) \<Rightarrow> error + (string \<rightharpoonup> 'v)" where
  "fill_kwargs ga [] kwargs = Inr kwargs"
| "fill_kwargs ga (attr # rest) kwargs =
     (if kwargs attr = None
      then (case ga attr of
              None \<Rightarrow> Inl (AttributeError attr)
            | Some v \<Rightarrow> fill_kwargs ga rest (kwargs(attr \<mapsto> v)))
      else fill_kwargs ga rest kwargs)"

definition shallow_copy ::
  "(string \<Rightarrow> string \<Rightarrow> bool) \<Rightarrow> ('k, 'g, 'v) view \<Rightarrow> 'd pyobj \<Rightarrow> (string \<rightharpoonup> 'v)
     \<Rightarrow> error + ('d, 'v) constructed" where
  "shallow_copy subclass self ob kwargs =
     (case (if isinstance subclass ob (constructor self) then getattr_obj ob else Inr ob) of
        Inl e \<Rightarrow> Inl e
      | Inr ob' \<Rightarrow>
          (case fill_kwargs (getattr self) (attributes self) kwargs of
             Inl e \<Rightarrow> Inl e
           | Inr kwargs' \<Rightarrow>
               Inr \<lparr>con_class = constructor self, con_obj = ob', con_kwargs = kwargs'\<rparr>))"

subsection \<open>\<open>GotItemMixin._gotitem\<close>\<close>

text \<open>
  The instance \<open>_gotitem\<close> returns: \<open>type(self)(subset, groupby=groupby, parent=self,
  **kwargs)\<close>, its cache cleared by \<open>_reset_cache()\<close>, and \<open>_selection\<close> as
  \<open>_gotitem\<close> assigned it (\<open>None\<close> when it made no assignment).
\<close>

record ('k, 'g, 'v) derived =
  new_type :: string
  new_obj :: "'k container"
  new_groupby :: 'g
  new_parent :: "('k, 'g, 'v) view"
  new_kwargs :: "string \<rightharpoonup> 'v"
  new_cache :: "string \<rightharpoonup> 'v"
  new_selection :: "'k key option"

text \<open>The comprehension \<open>{attr: getattr(self, attr) for attr in self._attributes}\<close>.\<close>

fun snapshot_attrs ::
  "(string \<rightharpoonup> 'v) \<Rightarrow> string list \<Rightarrow> (string \<rightharpoonup> 'v) \<Rightarrow> error + (string \<rightharpoonup> 'v)" where
  "snapshot_attrs ga [] kwargs = Inr kwargs"
| "snapshot_attrs ga (attr # rest) kwargs =
     (case ga attr of
        None \<Rightarrow> Inl (AttributeError attr)
      | Some v \<Rightarrow> snapshot_attrs ga rest (kwargs(attr \<mapsto> v)))"

text \<open>
  The \<open>try\<close> block. \<open>getitem\<close> is \<open>__getitem__\<close> of the grouping object, which is
  declared outside this module and is a parameter here.
\<close>

definition resolve_groupby :: "('g \<Rightarrow> 'k key \<Rightarrow> error + 'g) \<Rightarrow> 'g \<Rightarrow> 'k key \<Rightarrow> error + 'g" where
  "resolve_groupby getitem g key =
     (case getitem g key of
        Inr g' \<Rightarrow> Inr g'
      | Inl e \<Rightarrow> (if e = IndexError then Inr g else Inl e))"

text \<open>
  A keyword passed both by name and through \<open>**kwargs\<close> makes the call itself raise
  \<open>TypeError\<close>, before the constructor runs.
\<close>

definition gotitem ::
  "('g \<Rightarrow> 'k key \<Rightarrow> error + 'g) \<Rightarrow> ('k, 'g, 'v) view \<Rightarrow> 'k key \<Rightarrow> int \<Rightarrow> 'k container option
     \<Rightarrow> error + ('k, 'g, 'v) derived" where
  "gotitem getitem self key ndim_req subset_arg =
     (let subset_obj = (case subset_arg of None \<Rightarrow> obj self | Some s \<Rightarrow> s) in
      case snapshot_attrs (getattr self) (attributes self) Map.empty of
        Inl e \<Rightarrow> Inl e
      | Inr kwargs \<Rightarrow>
          (case resolve_groupby getitem (groupby self) key of
             Inl e \<Rightarrow> Inl e
           | Inr g \<Rightarrow>
               if kwargs ''groupby'' \<noteq> None then Inl (TypeError ''groupby'')
               else if kwargs ''parent'' \<noteq> None then Inl (TypeError ''parent'')
               else
                 Inr \<lparr>new_type = view_type self, new_obj = subset_obj, new_groupby = g,
                      new_parent = self, new_kwargs = kwargs, new_cache = Map.empty,
                      new_selection =
                        (if ndim subset_obj = 2
                            \<and> (is_scalar key \<and> contains key subset_obj \<or> is_list_like key)
                         then Some key else None)\<rparr>))"


subsection \<open>Sample objects\<close>

text \<open>
  A two-dimensional view with two columns and two propagated attributes, a grouping
  whose \<open>__getitem__\<close> raises \<open>IndexError\<close> for column keys and \<open>KeyError\<close> for
  anything that is neither scalar nor list-like, and a view of another class.
\<close>

definition sample_frame :: "string container" where
  "sample_frame = \<lparr>ndim = 2, info_axis = [''colA'', ''colB'']\<rparr>"

definition sample_view :: "(string, nat, int) view" where
  "sample_view =
     \<lparr>view_type = ''RollingGroupby'', constructor = ''RollingGroupby'',
      attributes = [''window'', ''min_periods''],
      getattr = [''window'' \<mapsto> 3, ''min_periods'' \<mapsto> 1],
      obj = sample_frame, groupby = 7\<rparr>"

definition sample_getitem :: "nat \<Rightarrow> string key \<Rightarrow> error + nat" where
  "sample_getitem g key =
     (case key of Scalar k \<Rightarrow> Inl IndexError | ListLike ks \<Rightarrow> Inl IndexError
      | OtherKey \<Rightarrow> Inl KeyError)"

definition same_class :: "string \<Rightarrow> string \<Rightarrow> bool" where
  "same_class c d = (c = d)"

definition foreign_view :: "string container pyobj" where
  "foreign_view = Instance ''DataFrameGroupBy'' (Data sample_frame)"

definition own_view :: "string container pyobj" where
  "own_view = Instance ''RollingGroupby'' (Data sample_frame)"

definition sample_overrides :: "string \<rightharpoonup> int" where
  "sample_overrides = [''window'' \<mapsto> 5]"


section \<open>Properties of the classification tables\<close>

text \<open>
  C1. The reduction table and the transformation table are disjoint: no name of
  \<open>reduction_kernels\<close> is in \<open>transformation_kernels\<close>, none of
  \<open>transformation_kernels\<close> is in \<open>reduction_kernels\<close>, and so no name at all is
  both a reduction and a transformation.
\<close>

theorem reduction_transformation_disjoint:
  "reduction_kernels \<inter> transformation_kernels = {}
   \<and> (\<forall>n\<in>reduction_kernels. n \<notin> transformation_kernels)
   \<and> (\<forall>n\<in>transformation_kernels. n \<notin> reduction_kernels)
   \<and> (\<forall>n. \<not> (n \<in> reduction_kernels \<and> n \<in> transformation_kernels))"
proof -
  have "reduction_kernels \<inter> transformation_kernels = {}"
    by (simp add: reduction_kernels_def transformation_kernels_def)
  then show ?thesis by blast
qed

theorem reduction_transformation_disjoint_witness:
  "''sum'' \<in> reduction_kernels \<and> ''sum'' \<notin> transformation_kernels
   \<and> ''rank'' \<in> transformation_kernels \<and> ''rank'' \<notin> reduction_kernels"
proof -
  have s: "''sum'' \<in> reduction_kernels"
    by (simp add: reduction_kernels_def)
  have r: "''rank'' \<in> transformation_kernels"
    by (simp add: transformation_kernels_def)
  from s r reduction_transformation_disjoint show ?thesis by blast
qed

text \<open>
  C2. A name is a valid argument of \<open>groupby.transform(name)\<close>, that is a member of
  \<open>transform_kernel_allowlist\<close>, exactly when it is in the reduction table or in the
  transformation table: the allowlist is the union of the two tables.
\<close>

theorem transform_kernel_allowlist_union:
  "transform_kernel_allowlist = reduction_kernels \<union> transformation_kernels
   \<and> (\<forall>n. n \<in> transform_kernel_allowlist
          \<longleftrightarrow> n \<in> reduction_kernels \<or> n \<in> transformation_kernels)"
  by (simp add: transform_kernel_allowlist_def)

theorem transform_kernel_allowlist_union_witness:
  "''sum'' \<in> transform_kernel_allowlist \<and> ''rank'' \<in> transform_kernel_allowlist
   \<and> ''plot'' \<notin> transform_kernel_allowlist"
proof -
  have s: "''sum'' \<in> reduction_kernels"
    by (simp add: reduction_kernels_def)
  have r: "''rank'' \<in> transformation_kernels"
    by (simp add: transformation_kernels_def)
  have p: "''plot'' \<notin> reduction_kernels \<and> ''plot'' \<notin> transformation_kernels"
    by (simp add: reduction_kernels_def transformation_kernels_def)
  from s r p transform_kernel_allowlist_union show ?thesis by blast
qed

text \<open>
  C6. The plotting-method names \<open>plot\<close> and \<open>hist\<close> are in the series apply allowlist
  and in the dataframe apply allowlist, and in neither the reduction table nor the
  transformation table.
\<close>

theorem plotting_methods_allowlisted:
  "''plot'' \<in> series_apply_allowlist \<and> ''hist'' \<in> series_apply_allowlist
   \<and> ''plot'' \<in> dataframe_apply_allowlist \<and> ''hist'' \<in> dataframe_apply_allowlist
   \<and> ''plot'' \<notin> reduction_kernels \<and> ''hist'' \<notin> reduction_kernels
   \<and> ''plot'' \<notin> transformation_kernels \<and> ''hist'' \<notin> transformation_kernels"
  by (simp add: series_apply_allowlist_def dataframe_apply_allowlist_def
      common_apply_allowlist_def plotting_methods_def reduction_kernels_def
      transformation_kernels_def)

text \<open>
  C7. \<open>corr\<close> and \<open>cov\<close> are in neither the reduction table nor the transformation
  table, and both are in \<open>groupby_other_methods\<close>.
\<close>

theorem corr_cov_other:
  "''corr'' \<notin> reduction_kernels \<and> ''cov'' \<notin> reduction_kernels
   \<and> ''corr'' \<notin> transformation_kernels \<and> ''cov'' \<notin> transformation_kernels
   \<and> ''corr'' \<in> groupby_other_methods \<and> ''cov'' \<in> groupby_other_methods"
  by (simp add: reduction_kernels_def transformation_kernels_def groupby_other_methods_def)

text \<open>
  C8. \<open>rank\<close> is a transformation and is cast-blocklisted, and it is not a cythonized
  kernel.
\<close>

theorem rank_classification:
  "''rank'' \<in> transformation_kernels \<and> ''rank'' \<in> cython_cast_blocklist
   \<and> ''rank'' \<notin> cythonized_kernels"
  by (simp add: transformation_kernels_def cython_cast_blocklist_def cythonized_kernels_def)

text \<open>
  C9. Every cythonized kernel is in the transformation table.
\<close>

theorem cythonized_subset_transformation:
  "cythonized_kernels \<subseteq> transformation_kernels
   \<and> (\<forall>n\<in>cythonized_kernels. n \<in> transformation_kernels)"
proof -
  have "cythonized_kernels \<subseteq> transformation_kernels"
    by (simp add: cythonized_kernels_def transformation_kernels_def)
  then show ?thesis by blast
qed

theorem cythonized_subset_transformation_witness:
  "''shift'' \<in> cythonized_kernels \<and> ''shift'' \<in> transformation_kernels"
proof -
  have s: "''shift'' \<in> cythonized_kernels"
    by (simp add: cythonized_kernels_def)
  from s cythonized_subset_transformation show ?thesis by blast
qed

section \<open>Properties of the delegation protocol\<close>

subsection \<open>The attribute loops\<close>

lemma fill_kwargs_total:
  "\<forall>a\<in>set as. kw a \<noteq> None \<or> ga a \<noteq> None \<Longrightarrow>
   \<exists>kw'. fill_kwargs ga as kw = Inr kw'
      \<and> (\<forall>a. kw' a = (if a \<in> set as \<and> kw a = None then ga a else kw a))"
proof (induction as arbitrary: kw)
  case Nil
  then show ?case by simp
next
  case (Cons x xs)
  show ?case
  proof (cases "kw x = None")
    case True
    with Cons.prems obtain v where v: "ga x = Some v" by auto
    have "\<forall>a\<in>set xs. (kw(x \<mapsto> v)) a \<noteq> None \<or> ga a \<noteq> None"
      using Cons.prems by auto
    from Cons.IH [OF this] obtain kw' where
      k: "fill_kwargs ga xs (kw(x \<mapsto> v)) = Inr kw'"
         "\<forall>a. kw' a = (if a \<in> set xs \<and> (kw(x \<mapsto> v)) a = None then ga a else (kw(x \<mapsto> v)) a)"
      by blast
    show ?thesis using True v k by auto
  next
    case False
    have "\<forall>a\<in>set xs. kw a \<noteq> None \<or> ga a \<noteq> None" using Cons.prems by auto
    from Cons.IH [OF this] obtain kw' where
      k: "fill_kwargs ga xs kw = Inr kw'"
         "\<forall>a. kw' a = (if a \<in> set xs \<and> kw a = None then ga a else kw a)"
      by blast
    show ?thesis using False k by auto
  qed
qed

lemma snapshot_attrs_total:
  "\<forall>a\<in>set as. ga a \<noteq> None \<Longrightarrow>
   \<exists>kw'. snapshot_attrs ga as kw = Inr kw'
      \<and> (\<forall>a. kw' a = (if a \<in> set as then ga a else kw a))"
proof (induction as arbitrary: kw)
  case Nil
  then show ?case by simp
next
  case (Cons x xs)
  from Cons.prems obtain v where v: "ga x = Some v" by auto
  have "\<forall>a\<in>set xs. ga a \<noteq> None" using Cons.prems by auto
  from Cons.IH [OF this, of "kw(x \<mapsto> v)"] obtain kw' where
    k: "snapshot_attrs ga xs (kw(x \<mapsto> v)) = Inr kw'"
       "\<forall>a. kw' a = (if a \<in> set xs then ga a else (kw(x \<mapsto> v)) a)"
    by blast
  show ?case using v k by auto
qed

lemma snapshot_attrs_error:
  "snapshot_attrs ga as kw = Inl e \<Longrightarrow> \<exists>a. e = AttributeError a \<and> a \<in> set as \<and> ga a = None"
  by (induction as arbitrary: kw) (auto split: option.splits)


subsection \<open>What \<open>_gotitem\<close> returns\<close>

lemma gotitem_returns:
  assumes rd: "\<forall>a\<in>set (attributes self). getattr self a \<noteq> None"
    and kw: "''groupby'' \<notin> set (attributes self)" "''parent'' \<notin> set (attributes self)"
    and g: "resolve_groupby getitem (groupby self) key = Inr g"
  shows "\<exists>r. gotitem getitem self key n s = Inr r \<and> new_groupby r = g"
proof -
  from snapshot_attrs_total [OF rd, of Map.empty] obtain kwargs where
    k: "snapshot_attrs (getattr self) (attributes self) Map.empty = Inr kwargs"
       "\<forall>a. kwargs a = (if a \<in> set (attributes self) then getattr self a else None)"
    by blast
  from k(2) kw have "kwargs ''groupby'' = None" "kwargs ''parent'' = None" by simp_all
  with k(1) g show ?thesis by (simp add: gotitem_def Let_def)
qed

lemma gotitem_result:
  assumes "gotitem getitem self key n s = Inr r"
  shows "resolve_groupby getitem (groupby self) key = Inr (new_groupby r)
    \<and> snapshot_attrs (getattr self) (attributes self) Map.empty = Inr (new_kwargs r)
    \<and> new_obj r = (case s of None \<Rightarrow> obj self | Some d \<Rightarrow> d)
    \<and> new_parent r = self \<and> new_type r = view_type self \<and> new_cache r = Map.empty
    \<and> new_selection r =
        (if ndim (new_obj r) = 2 \<and> (is_scalar key \<and> contains key (new_obj r) \<or> is_list_like key)
         then Some key else None)"
  using assms
  by (auto simp: gotitem_def Let_def split: sum.splits if_splits)

subsection \<open>\<open>_shallow_copy\<close>\<close>

text \<open>
  C3, as the code has it. \<open>_shallow_copy\<close> unwraps the replacement object to its
  \<open>obj\<close> exactly when it is an instance of the view's own constructor class
  (\<open>isinstance(obj, self._constructor)\<close>); any other object, a view of another class
  included, is passed on as it is. Provided every declared attribute is overridden or
  readable, the call returns, and the keyword arguments given to the constructor map
  every declared attribute to its override when one was supplied and to the source
  view's current value otherwise; keywords that are not declared attributes pass
  through. With no overrides every declared attribute has the source view's value.
\<close>

theorem shallow_copy_spec:
  assumes "\<forall>a\<in>set (attributes self). kwargs a \<noteq> None \<or> getattr self a \<noteq> None"
  shows "\<exists>r. shallow_copy subclass self ob kwargs = Inr r
     \<and> con_class r = constructor self
     \<and> (if isinstance subclass ob (constructor self)
        then getattr_obj ob = Inr (con_obj r) else con_obj r = ob)
     \<and> (\<forall>a\<in>set (attributes self).
          con_kwargs r a = (case kwargs a of Some v \<Rightarrow> Some v | None \<Rightarrow> getattr self a))
     \<and> (\<forall>a. a \<notin> set (attributes self) \<longrightarrow> con_kwargs r a = kwargs a)
     \<and> (kwargs = Map.empty \<longrightarrow> (\<forall>a\<in>set (attributes self). con_kwargs r a = getattr self a))"
proof -
  from fill_kwargs_total [OF assms] obtain kw' where
    k: "fill_kwargs (getattr self) (attributes self) kwargs = Inr kw'"
       "\<forall>a. kw' a = (if a \<in> set (attributes self) \<and> kwargs a = None then getattr self a else kwargs a)"
    by blast
  have "\<exists>ob'. (if isinstance subclass ob (constructor self) then getattr_obj ob else Inr ob)
      = Inr ob'"
    by (cases ob) simp_all
  then obtain ob' where
    o: "(if isinstance subclass ob (constructor self) then getattr_obj ob else Inr ob) = Inr ob'" ..
  let ?r = "\<lparr>con_class = constructor self, con_obj = ob', con_kwargs = kw'\<rparr>"
  have r: "shallow_copy subclass self ob kwargs = Inr ?r"
    using k(1) o by (simp add: shallow_copy_def)
  have a: "if isinstance subclass ob (constructor self)
        then getattr_obj ob = Inr (con_obj ?r) else con_obj ?r = ob"
    using o by (simp split: if_splits)
  have b: "\<forall>a\<in>set (attributes self).
          con_kwargs ?r a = (case kwargs a of Some v \<Rightarrow> Some v | None \<Rightarrow> getattr self a)"
    using k(2) by (auto split: option.splits)
  have c: "\<forall>a. a \<notin> set (attributes self) \<longrightarrow> con_kwargs ?r a = kwargs a"
    using k(2) by simp
  have d: "kwargs = Map.empty \<longrightarrow> (\<forall>a\<in>set (attributes self). con_kwargs ?r a = getattr self a)"
    using k(2) by simp
  from r a b c d show ?thesis by (intro exI [of _ ?r] conjI) simp_all
qed

theorem shallow_copy_spec_witness:
  "map_sum id con_obj (shallow_copy same_class sample_view own_view sample_overrides)
     = Inr (Data sample_frame)
   \<and> map_sum id (\<lambda>r. con_kwargs r ''window'')
        (shallow_copy same_class sample_view own_view sample_overrides) = Inr (Some 5)
   \<and> map_sum id (\<lambda>r. con_kwargs r ''min_periods'')
        (shallow_copy same_class sample_view own_view sample_overrides) = Inr (Some 1)
   \<and> map_sum id (\<lambda>r. con_kwargs r ''window'')
        (shallow_copy same_class sample_view (Data sample_frame) Map.empty) = Inr (Some 3)"
proof -
  have h: "\<forall>a\<in>set (attributes sample_view).
      sample_overrides a \<noteq> None \<or> getattr sample_view a \<noteq> None"
    by (simp add: sample_view_def sample_overrides_def)
  have h0: "\<forall>a\<in>set (attributes sample_view).
      (Map.empty :: string \<rightharpoonup> int) a \<noteq> None \<or> getattr sample_view a \<noteq> None"
    by (simp add: sample_view_def)
  have w: "''window'' \<in> set (attributes sample_view)"
    and m: "''min_periods'' \<in> set (attributes sample_view)"
    by (simp_all add: sample_view_def)
  from shallow_copy_spec [OF h, of same_class own_view] obtain r where
    r: "shallow_copy same_class sample_view own_view sample_overrides = Inr r"
      "if isinstance same_class own_view (constructor sample_view)
        then getattr_obj own_view = Inr (con_obj r) else con_obj r = own_view"
      "\<forall>a\<in>set (attributes sample_view).
          con_kwargs r a = (case sample_overrides a of Some v \<Rightarrow> Some v
                            | None \<Rightarrow> getattr sample_view a)"
    by blast
  from r(2) have o: "con_obj r = Data sample_frame"
    by (simp add: own_view_def sample_view_def same_class_def)
  from r(3) w have kw: "con_kwargs r ''window'' = Some 5"
    by (simp add: sample_overrides_def)
  from r(3) m have km: "con_kwargs r ''min_periods'' = Some 1"
    by (simp add: sample_overrides_def sample_view_def)
  from shallow_copy_spec [OF h0, of same_class "Data sample_frame"] obtain r0 where
    r0: "shallow_copy same_class sample_view (Data sample_frame) (Map.empty :: string \<rightharpoonup> int) = Inr r0"
      "\<forall>a\<in>set (attributes sample_view). con_kwargs r0 a = getattr sample_view a"
    by blast
  from r0(2) w have k0: "con_kwargs r0 ''window'' = Some 3"
    by (simp add: sample_view_def)
  from r(1) o kw km r0(1) k0 show ?thesis by simp
qed

text \<open>
  The claim as worded, "unwraps when it is itself a grouped-view", fails for a view of a
  class other than the constructor's: it reaches the constructor still wrapped.
\<close>

theorem shallow_copy_foreign_view_counterexample:
  "map_sum id con_obj (shallow_copy same_class sample_view foreign_view Map.empty)
     = Inr foreign_view
   \<and> getattr_obj foreign_view = Inr (Data sample_frame)
   \<and> foreign_view \<noteq> Data sample_frame"
  by (simp add: shallow_copy_def sample_view_def foreign_view_def same_class_def)

subsection \<open>\<open>_gotitem\<close>\<close>

text \<open>
  C4. When indexing the parent's grouping by the key raises \<open>IndexError\<close>, the error
  is caught: a returned view carries the parent's grouping unchanged, and the call does
  return when the declared attributes are readable and do not clash with the
  \<open>groupby\<close> and \<open>parent\<close> keywords. \<open>_gotitem\<close> never raises \<open>IndexError\<close>. Every
  other exception of the indexing, and an exception of the attribute snapshot,
  reaches the caller unchanged.
\<close>

theorem gotitem_index_error_recovered:
  "(getitem (groupby self) key = Inl IndexError \<longrightarrow>
      (\<forall>r. gotitem getitem self key n s = Inr r \<longrightarrow> new_groupby r = groupby self)
      \<and> ((\<forall>a\<in>set (attributes self). getattr self a \<noteq> None)
           \<and> ''groupby'' \<notin> set (attributes self) \<and> ''parent'' \<notin> set (attributes self)
         \<longrightarrow> (\<exists>r. gotitem getitem self key n s = Inr r \<and> new_groupby r = groupby self)))
   \<and> gotitem getitem self key n s \<noteq> Inl IndexError
   \<and> (\<forall>e. e \<noteq> IndexError \<and> getitem (groupby self) key = Inl e
          \<and> (\<forall>a\<in>set (attributes self). getattr self a \<noteq> None)
        \<longrightarrow> gotitem getitem self key n s = Inl e)
   \<and> (\<forall>e. snapshot_attrs (getattr self) (attributes self) Map.empty = Inl e
        \<longrightarrow> gotitem getitem self key n s = Inl e)"
proof (intro conjI impI allI)
  fix r
  assume "getitem (groupby self) key = Inl IndexError" "gotitem getitem self key n s = Inr r"
  with gotitem_result [of getitem self key n s r]
  show "new_groupby r = groupby self"
    by (simp add: resolve_groupby_def)
next
  assume i: "getitem (groupby self) key = Inl IndexError"
    and h: "(\<forall>a\<in>set (attributes self). getattr self a \<noteq> None)
           \<and> ''groupby'' \<notin> set (attributes self) \<and> ''parent'' \<notin> set (attributes self)"
  from i have "resolve_groupby getitem (groupby self) key = Inr (groupby self)"
    by (simp add: resolve_groupby_def)
  with h gotitem_returns [of self getitem key "groupby self" n s]
  show "\<exists>r. gotitem getitem self key n s = Inr r \<and> new_groupby r = groupby self"
    by blast
next
  show "gotitem getitem self key n s \<noteq> Inl IndexError"
    by (auto simp: gotitem_def Let_def resolve_groupby_def
        split: sum.splits if_splits dest: snapshot_attrs_error)
next
  fix e
  assume h: "e \<noteq> IndexError \<and> getitem (groupby self) key = Inl e
          \<and> (\<forall>a\<in>set (attributes self). getattr self a \<noteq> None)"
  then have rd: "\<forall>a\<in>set (attributes self). getattr self a \<noteq> None" by simp
  from snapshot_attrs_total [OF rd, of Map.empty] obtain kwargs where
    "snapshot_attrs (getattr self) (attributes self) Map.empty = Inr kwargs" by blast
  with h show "gotitem getitem self key n s = Inl e"
    by (simp add: gotitem_def resolve_groupby_def)
next
  fix e
  assume "snapshot_attrs (getattr self) (attributes self) Map.empty = Inl e"
  then show "gotitem getitem self key n s = Inl e"
    by (simp add: gotitem_def)
qed

theorem gotitem_index_error_recovered_witness:
  "sample_getitem (groupby sample_view) (Scalar ''colA'') = Inl IndexError
   \<and> map_sum id new_groupby (gotitem sample_getitem sample_view (Scalar ''colA'') 2 None)
       = Inr (groupby sample_view)
   \<and> sample_getitem (groupby sample_view) OtherKey = Inl KeyError
   \<and> gotitem sample_getitem sample_view OtherKey 2 None = Inl KeyError"
proof -
  have i: "sample_getitem (groupby sample_view) (Scalar ''colA'') = Inl IndexError"
    by (simp add: sample_getitem_def)
  have k: "sample_getitem (groupby sample_view) OtherKey = Inl KeyError"
    by (simp add: sample_getitem_def)
  have rd: "(\<forall>a\<in>set (attributes sample_view). getattr sample_view a \<noteq> None)"
    and cl: "''groupby'' \<notin> set (attributes sample_view) \<and> ''parent'' \<notin> set (attributes sample_view)"
    by (simp_all add: sample_view_def)
  from gotitem_index_error_recovered [of sample_getitem sample_view "Scalar ''colA''" 2 None] i rd cl
  obtain r where r: "gotitem sample_getitem sample_view (Scalar ''colA'') 2 None = Inr r"
    "new_groupby r = groupby sample_view"
    by blast
  have "KeyError \<noteq> IndexError" by simp
  with gotitem_index_error_recovered [of sample_getitem sample_view OtherKey 2 None] k rd
  have e: "gotitem sample_getitem sample_view OtherKey 2 None = Inl KeyError"
    by blast
  from i k r e show ?thesis by simp
qed

text \<open>
  C5, as the code has it. On the returned view \<open>_selection\<close> is the key exactly when
  the subset is two-dimensional and the key is either a scalar contained in the
  subset's columns or list-like, whatever the list holds; in every other case no
  selection is assigned. The subset is the argument, or the view's own \<open>obj\<close> when
  none is given, and the call returns when the attributes are readable, no keyword
  clashes and the grouping raises nothing but \<open>IndexError\<close>.
\<close>

theorem gotitem_selection_spec:
  "(\<forall>r. gotitem getitem self key n s = Inr r \<longrightarrow>
      new_obj r = (case s of None \<Rightarrow> obj self | Some d \<Rightarrow> d)
      \<and> new_selection r =
         (if ndim (new_obj r) = 2
             \<and> ((\<exists>k. key = Scalar k \<and> k \<in> set (info_axis (new_obj r))) \<or> (\<exists>ks. key = ListLike ks))
          then Some key else None))
   \<and> ((\<forall>a\<in>set (attributes self). getattr self a \<noteq> None)
        \<and> ''groupby'' \<notin> set (attributes self) \<and> ''parent'' \<notin> set (attributes self)
        \<and> (\<forall>e. getitem (groupby self) key = Inl e \<longrightarrow> e = IndexError)
      \<longrightarrow> (\<exists>r. gotitem getitem self key n s = Inr r))"
proof (intro conjI impI allI)
  fix r
  assume r: "gotitem getitem self key n s = Inr r"
  from gotitem_result [OF r]
  show "new_obj r = (case s of None \<Rightarrow> obj self | Some d \<Rightarrow> d)" by simp
  have "(is_scalar key \<and> contains key (new_obj r) \<or> is_list_like key)
      \<longleftrightarrow> ((\<exists>k. key = Scalar k \<and> k \<in> set (info_axis (new_obj r))) \<or> (\<exists>ks. key = ListLike ks))"
    by (cases key) simp_all
  with gotitem_result [OF r]
  show "new_selection r =
         (if ndim (new_obj r) = 2
             \<and> ((\<exists>k. key = Scalar k \<and> k \<in> set (info_axis (new_obj r))) \<or> (\<exists>ks. key = ListLike ks))
          then Some key else None)"
    by simp
next
  assume h: "(\<forall>a\<in>set (attributes self). getattr self a \<noteq> None)
        \<and> ''groupby'' \<notin> set (attributes self) \<and> ''parent'' \<notin> set (attributes self)
        \<and> (\<forall>e. getitem (groupby self) key = Inl e \<longrightarrow> e = IndexError)"
  then have "\<exists>g. resolve_groupby getitem (groupby self) key = Inr g"
    by (auto simp: resolve_groupby_def split: sum.splits)
  then obtain g where "resolve_groupby getitem (groupby self) key = Inr g" ..
  with h gotitem_returns [of self getitem key g n s]
  show "\<exists>r. gotitem getitem self key n s = Inr r" by blast
qed

theorem gotitem_selection_spec_witness:
  "map_sum id new_selection (gotitem sample_getitem sample_view (Scalar ''colA'') 2 None)
     = Inr (Some (Scalar ''colA''))
   \<and> map_sum id new_selection (gotitem sample_getitem sample_view (Scalar ''zzz'') 2 None)
     = Inr None"
proof -
  have rd: "(\<forall>a\<in>set (attributes sample_view). getattr sample_view a \<noteq> None)
      \<and> ''groupby'' \<notin> set (attributes sample_view) \<and> ''parent'' \<notin> set (attributes sample_view)"
    by (simp add: sample_view_def)
  have g: "\<forall>e. sample_getitem (groupby sample_view) (Scalar k) = Inl e \<longrightarrow> e = IndexError" for k
    by (simp add: sample_getitem_def)
  from gotitem_selection_spec [of sample_getitem sample_view "Scalar ''colA''" 2 None] rd g
  obtain r where r: "gotitem sample_getitem sample_view (Scalar ''colA'') 2 None = Inr r"
    by blast
  with gotitem_selection_spec [of sample_getitem sample_view "Scalar ''colA''" 2 None]
  have "new_selection r = Some (Scalar ''colA'')"
    by (simp add: sample_view_def sample_frame_def)
  moreover
  from gotitem_selection_spec [of sample_getitem sample_view "Scalar ''zzz''" 2 None] rd g
  obtain r' where r': "gotitem sample_getitem sample_view (Scalar ''zzz'') 2 None = Inr r'"
    by blast
  with gotitem_selection_spec [of sample_getitem sample_view "Scalar ''zzz''" 2 None]
  have "new_selection r' = None"
    by (simp add: sample_view_def sample_frame_def)
  ultimately show ?thesis using r r' by simp
qed

text \<open>
  The claim as worded asks the identifiers of a sequence to be columns of the subset;
  the code assigns the selection for a list whose only element is no column.
\<close>

theorem gotitem_selection_list_counterexample:
  "map_sum id new_selection (gotitem sample_getitem sample_view (ListLike [''zzz'']) 2 None)
     = Inr (Some (ListLike [''zzz'']))
   \<and> ndim sample_frame = 2
   \<and> ''zzz'' \<notin> set (info_axis sample_frame)"
  by (simp add: gotitem_def Let_def resolve_groupby_def sample_view_def sample_frame_def
      sample_getitem_def)

text \<open>
  C10. The result of \<open>_gotitem\<close> does not depend on its \<open>ndim\<close> argument: any two
  values of it, \<open>1\<close> and \<open>2\<close> among them, give equal results, errors included.
\<close>

theorem gotitem_ndim_irrelevant:
  "gotitem getitem self key n s = gotitem getitem self key m s"
  by (simp add: gotitem_def)

theorem gotitem_ndim_irrelevant_witness:
  "gotitem sample_getitem sample_view (Scalar ''colA'') 1 None
     = gotitem sample_getitem sample_view (Scalar ''colA'') 2 None"
  by (rule gotitem_ndim_irrelevant)

end
